theory Spec2Isabelle
  imports Complex_Main
begin

section \<open>Numbers and formatting\<close>

text \<open>
  The service computes on Python \<open>float\<close>s. They are modelled as real numbers: the
  arithmetic of the source is kept operation by operation, the rounding error of the
  binary representation is not. Python's \<open>round(x, ndigits)\<close> rounds to the closest
  multiple of \<open>10 ^ -ndigits\<close> and, of two equally close multiples, to the even one.
\<close>

definition py_round :: "real \<Rightarrow> nat \<Rightarrow> real" where
  "py_round x ndigits =
     (let m = 10 ^ ndigits;
          y = x * m;
          f = \<lfloor>y\<rfloor>;
          r = y - of_int f
      in (if r < 1 / 2 then of_int f
          else if 1 / 2 < r then of_int f + 1
          else if even f then of_int f
          else of_int f + 1) / m)"

text \<open>\<open>int(x)\<close> on a float truncates towards zero.\<close>

definition py_int :: "real \<Rightarrow> int" where
  "py_int x = (if 0 \<le> x then \<lfloor>x\<rfloor> else \<lceil>x\<rceil>)"

text \<open>
  The text Python prints for a float (\<open>str\<close>, and the format specifications
  \<open>.1f\<close>, \<open>.2f\<close>, \<open>+.2f\<close>) belongs to the language, not to the repository; the
  functions that use it take it as a parameter.
\<close>

record pyfmt =
  str_float :: "real \<Rightarrow> string"
  fmt_1f :: "real \<Rightarrow> string"
  fmt_2f :: "real \<Rightarrow> string"
  fmt_plus_2f :: "real \<Rightarrow> string"

definition nl :: string where
  "nl = [CHR 0x0A]"

definition dq :: string where
  "dq = [CHR 0x22]"

section \<open>Errors\<close>

text \<open>
  The exceptions the orchestration raises or catches, each with its message
  (\<open>str(e)\<close>). \<open>ClientError\<close> is any \<open>Exception\<close> raised by the model client's
  \<open>generate\<close>; \<open>RetryLimitExceeded\<close> is \<open>Exception("LLM retry limit exceeded")\<close>.
\<close>

datatype error =
    ValueError string
  | AttributeError string
  | TypeError string
  | JSONDecodeError string
  | ValidationError string
  | ClientError string
  | RetryLimitExceeded

fun str_error :: "error \<Rightarrow> string" where
  "str_error (ValueError m) = m"
| "str_error (AttributeError m) = m"
| "str_error (TypeError m) = m"
| "str_error (JSONDecodeError m) = m"
| "str_error (ValidationError m) = m"
| "str_error (ClientError m) = m"
| "str_error RetryLimitExceeded = ''LLM retry limit exceeded''"

section \<open>Settings and schemas\<close>

text \<open>\<open>app/config.py\<close>: the fields of \<open>Settings\<close> the orchestration reads.\<close>

record Settings =
  llm_provider :: string
  llm_max_retries :: int
  severity_threshold_critical :: real
  severity_threshold_high :: real
  severity_threshold_medium :: real

definition default_settings :: Settings where
  "default_settings =
     \<lparr>llm_provider = ''gemini'',
      llm_max_retries = 3,
      severity_threshold_critical = 50,
      severity_threshold_high = 25,
      severity_threshold_medium = 10\<rparr>"

datatype Severity = Critical | High | Medium | Low

fun severity_str :: "Severity \<Rightarrow> string" where
  "severity_str Critical = ''critical''"
| "severity_str High = ''high''"
| "severity_str Medium = ''medium''"
| "severity_str Low = ''low''"

text \<open>\<open>app/models/schemas.py\<close>: \<open>ContextConfig\<close> and \<open>FeatureSet\<close>.\<close>

record ContextConfig =
  baseline :: "real option"
  thresholds :: "(string \<rightharpoonup> real) option"

record FeatureSet =
  previous_value :: real
  current_value :: real
  change_absolute :: real
  change_percent :: real
  severity :: Severity

section \<open>Feature extraction\<close>

text \<open>
  \<open>FeatureExtractor.extract_from_metrics\<close>. \<open>context\<close> is the dictionary of a
  \<open>ContextConfig\<close> (never empty, so \<open>if context\<close> only tests for \<open>None\<close>);
  \<open>thresholds.get(k, d)\<close> is the lookup with a default.
\<close>

definition dict_get :: "('k \<rightharpoonup> 'v) \<Rightarrow> 'k \<Rightarrow> 'v \<Rightarrow> 'v" where
  "dict_get m k d = (case m k of None \<Rightarrow> d | Some v \<Rightarrow> v)"

definition percent_change :: "real \<Rightarrow> real \<Rightarrow> real" where
  "percent_change previous current =
     (if previous = 0 then
        (if current = 0 then 0
         else (if current > 0 then 1000 else - 1000))
      else ((current - previous) / previous) * 100)"

definition effective_thresholds :: "Settings \<Rightarrow> ContextConfig option \<Rightarrow> (string \<rightharpoonup> real)" where
  "effective_thresholds s context =
     (case (case context of None \<Rightarrow> None | Some c \<Rightarrow> thresholds c) of
        None \<Rightarrow> [''critical'' \<mapsto> severity_threshold_critical s,
                  ''high'' \<mapsto> severity_threshold_high s,
                  ''medium'' \<mapsto> severity_threshold_medium s]
      | Some t \<Rightarrow> t)"

definition classify :: "(string \<rightharpoonup> real) \<Rightarrow> real \<Rightarrow> Severity" where
  "classify t abs_change =
     (if abs_change \<ge> dict_get t ''critical'' 50 then Critical
      else if abs_change \<ge> dict_get t ''high'' 25 then High
      else if abs_change \<ge> dict_get t ''medium'' 10 then Medium
      else Low)"

definition extract_from_metrics ::
  "Settings \<Rightarrow> real list \<Rightarrow> ContextConfig option \<Rightarrow> error + FeatureSet" where
  "extract_from_metrics s vals context =
     (if length vals < 2 then Inl (ValueError ''Need at least 2 values for comparison'')
      else
        let previous = vals ! (length vals - 2);
            current = vals ! (length vals - 1);
            change_abs = current - previous;
            change_pct = percent_change previous current;
            sev = classify (effective_thresholds s context) \<bar>change_pct\<bar>
        in Inr \<lparr>previous_value = previous,
                current_value = current,
                change_absolute = py_round change_abs 2,
                change_percent = py_round change_pct 2,
                severity = sev\<rparr>)"

section \<open>Anomaly detection\<close>

text \<open>
  \<open>app/services/anomaly_detector.py\<close>. The numpy functions it calls, with their
  default arguments, over the reals: \<open>np.mean\<close> is the arithmetic mean, \<open>np.std\<close>
  the population standard deviation \<open>sqrt(mean(abs(x - mean(x)) ** 2))\<close>,
  \<open>np.percentile\<close> interpolates linearly between the two order statistics around
  the position \<open>(n - 1) * q / 100\<close> of the sorted data, and \<open>np.median\<close> is the
  middle order statistic, or the mean of the two middle ones.
\<close>

definition np_mean :: "real list \<Rightarrow> real" where
  "np_mean xs = sum_list xs / real (length xs)"

definition np_std :: "real list \<Rightarrow> real" where
  "np_std xs = (let m = np_mean xs in sqrt (np_mean (map (\<lambda>x. \<bar>x - m\<bar> ^ 2) xs)))"

definition np_percentile :: "real list \<Rightarrow> real \<Rightarrow> real" where
  "np_percentile xs q =
     (let srt = sort xs;
          n = length xs;
          h = (real n - 1) * (q / 100);
          lo = nat \<lfloor>h\<rfloor>;
          hi = min (lo + 1) (n - 1);
          g = h - real lo
      in srt ! lo + (srt ! hi - srt ! lo) * g)"

definition np_median :: "real list \<Rightarrow> real" where
  "np_median xs =
     (let srt = sort xs; n = length xs
      in if even n then (srt ! (n div 2 - 1) + srt ! (n div 2)) / 2 else srt ! (n div 2))"

text \<open>
  \<open>AnomalyResult\<close>; \<open>details\<close> is a dictionary from strings to floats, integers
  and strings, kept in insertion order.
\<close>

datatype detail = DFloat real | DInt int | DStr string

record AnomalyResult =
  is_anomaly :: bool
  z_score :: real
  method_name :: string
  details :: "(string \<times> detail) list"

definition z_score_detection :: "pyfmt \<Rightarrow> real list \<Rightarrow> real \<Rightarrow> AnomalyResult" where
  "z_score_detection fmt vals threshold =
     (if length vals < 3 then
        \<lparr>is_anomaly = False, z_score = 0, method_name = ''z_score'',
         details = [(''error'', DStr ''Insufficient data for z-score'')]\<rparr>
      else
        let mean = np_mean vals;
            std = np_std vals
        in if std = 0 then
             \<lparr>is_anomaly = False, z_score = 0, method_name = ''z_score'',
              details = [(''mean'', DFloat mean), (''std'', DFloat 0),
                         (''note'', DStr ''No variance in data'')]\<rparr>
           else
             let current = vals ! (length vals - 1);
                 z = (current - mean) / std;
                 anomalous = \<bar>z\<bar> > threshold
             in \<lparr>is_anomaly = anomalous, z_score = z, method_name = ''z_score'',
                 details =
                   [(''mean'', DFloat mean), (''std'', DFloat std),
                    (''current_value'', DFloat current), (''threshold'', DFloat threshold),
                    (''interpretation'',
                       DStr (''Value is '' @ fmt_2f fmt \<bar>z\<bar> @ '' standard deviations from mean ''
                             @ (if anomalous then ''(ANOMALY)'' else ''(NORMAL)'')))]\<rparr>)"

definition iqr_detection :: "pyfmt \<Rightarrow> real list \<Rightarrow> real \<Rightarrow> AnomalyResult" where
  "iqr_detection fmt vals multiplier =
     (if length vals < 4 then
        \<lparr>is_anomaly = False, z_score = 0, method_name = ''iqr'',
         details = [(''error'', DStr ''Need at least 4 values for IQR'')]\<rparr>
      else
        let q1 = np_percentile vals 25;
            q3 = np_percentile vals 75;
            iqr = q3 - q1;
            lower_bound = q1 - (multiplier * iqr);
            upper_bound = q3 + (multiplier * iqr);
            current = vals ! (length vals - 1);
            anomalous = (current < lower_bound \<or> current > upper_bound);
            median = np_median vals;
            z_equiv = (if iqr > 0 then \<bar>current - median\<bar> / (iqr / (135 / 100)) else 0)
        in \<lparr>is_anomaly = anomalous, z_score = z_equiv, method_name = ''iqr'',
            details =
              [(''q1'', DFloat q1), (''q3'', DFloat q3), (''iqr'', DFloat iqr),
               (''lower_bound'', DFloat lower_bound), (''upper_bound'', DFloat upper_bound),
               (''current_value'', DFloat current),
               (''interpretation'',
                  DStr (''Value is '' @ (if anomalous then ''OUTSIDE'' else ''WITHIN'')
                        @ '' normal range ['' @ fmt_2f fmt lower_bound @ '', ''
                        @ fmt_2f fmt upper_bound @ '']''))]\<rparr>)"

section \<open>Prompt construction\<close>

text \<open>
  \<open>PromptBuilder.build_insight_prompt\<close>. Its \<open>input_data\<close> argument is never read
  and is left out. An \<open>AnomalyResult\<close> is a dataclass instance and so always true
  in \<open>if anomaly_result\<close>: the section is added exactly when a result was passed.
\<close>

fun str_detail :: "pyfmt \<Rightarrow> detail \<Rightarrow> string" where
  "str_detail fmt (DFloat x) = str_float fmt x"
| "str_detail fmt (DInt i) = str_float fmt (of_int i)"
| "str_detail fmt (DStr t) = t"

definition task_section :: string where
  "task_section = nl
     @ ''TASK:'' @ nl
     @ ''Generate a concise business insight explaining this change. Your response must be actionable and relevant to C-level stakeholders.'' @ nl
     @ nl
     @ ''REQUIREMENTS:'' @ nl
     @ ''1. Summary: 2-3 sentences explaining what happened and why it matters'' @ nl
     @ ''2. Severity: critical | high | medium | low (you may adjust from rule-based if you have good reason)'' @ nl
     @ ''3. Confidence: 0.0-1.0 based on data quality and pattern clarity'' @ nl
     @ ''4. Recommended Actions: 2-4 specific, actionable steps'' @ nl
     @ ''5. Key Findings: 2-4 bullet points highlighting important patterns'' @ nl
     @ nl
     @ ''OUTPUT FORMAT: Return ONLY valid JSON matching this schema:'' @ nl
     @ ''{'' @ nl
     @ ''  '' @ dq @ ''summary'' @ dq @ '': '' @ dq @ ''string'' @ dq @ '','' @ nl
     @ ''  '' @ dq @ ''severity'' @ dq @ '': '' @ dq @ ''critical|high|medium|low'' @ dq @ '','' @ nl
     @ ''  '' @ dq @ ''confidence'' @ dq @ '': 0.85,'' @ nl
     @ ''  '' @ dq @ ''recommended_actions'' @ dq @ '': ['' @ dq @ ''action1'' @ dq @ '', '' @ dq @ ''action2'' @ dq @ ''],'' @ nl
     @ ''  '' @ dq @ ''key_findings'' @ dq @ '': ['' @ dq @ ''finding1'' @ dq @ '', '' @ dq @ ''finding2'' @ dq @ '']'' @ nl
     @ ''}'' @ nl
     @ nl
     @ ''Generate your response now.''"

definition build_insight_prompt ::
  "pyfmt \<Rightarrow> string \<Rightarrow> FeatureSet \<Rightarrow> AnomalyResult option \<Rightarrow> string" where
  "build_insight_prompt fmt metric features anomaly_result =
     ''You are analyzing business metrics for an enterprise data platform.'' @ nl
     @ nl
     @ ''METRIC: '' @ metric @ nl
     @ ''CURRENT VALUE: '' @ str_float fmt (current_value features) @ nl
     @ ''PREVIOUS VALUE: '' @ str_float fmt (previous_value features) @ nl
     @ ''CHANGE: '' @ str_float fmt (change_absolute features)
     @ '' ('' @ fmt_plus_2f fmt (change_percent features) @ ''%)'' @ nl
     @ ''RULE-BASED SEVERITY: '' @ severity_str (severity features) @ nl
     @ (case anomaly_result of
          None \<Rightarrow> []
        | Some a \<Rightarrow>
            nl
            @ ''STATISTICAL ANOMALY ANALYSIS:'' @ nl
            @ ''- Method: '' @ method_name a @ nl
            @ ''- Is Anomaly: '' @ (if is_anomaly a then ''True'' else ''False'') @ nl
            @ ''- Z-Score: '' @ fmt_2f fmt (z_score a) @ nl
            @ ''- Details: ''
            @ (case map_of (details a) ''interpretation'' of
                 None \<Rightarrow> ''N/A''
               | Some v \<Rightarrow> str_detail fmt v) @ nl)
     @ task_section"

section \<open>The orchestrator\<close>

text \<open>
  \<open>app/models/schemas.py\<close>: the request and the response. \<open>InsightRequest.data\<close> is
  a dictionary; the orchestrator reads three of its keys, each through \<open>.get\<close>, so
  the model keeps those three, \<open>None\<close> standing for an absent key. The identifier and
  the timestamp of the response come from default factories and are not modelled.
\<close>

datatype InputType = Metrics | Text | Timeseries

record RequestData =
  d_metric_name :: "string option"
  d_values :: "real list option"
  d_series_name :: "string option"

record InsightRequest =
  user_id :: string
  tenant_id :: string
  input_type :: InputType
  data :: RequestData
  request_context :: "ContextConfig option"

record InsightOutput =
  summary :: string
  insight_severity :: Severity
  confidence :: real
  recommended_actions :: "string list"
  key_findings :: "string list"

record InputSummary =
  metric_name :: string
  data_points_count :: nat

record ResponseMetadata =
  processing_time_ms :: int
  resp_llm_provider :: string
  model_version :: string
  fallback_used :: bool

record InsightResponse =
  resp_user_id :: string
  resp_tenant_id :: string
  input_summary :: InputSummary
  features :: FeatureSet
  insight :: InsightOutput
  metadata :: ResponseMetadata

text \<open>
  \<open>LLMClient\<close> (\<open>app/clients/llm_base.py\<close>) is an interface. A client is modelled by
  what one orchestration sees of it: \<open>generate c k prompt\<close> is the outcome of its
  call number \<open>k\<close> (counted from 0), either the returned text or the message of the
  exception it raised. The schema and the temperature are the same on every call.
\<close>

record LLMClient =
  generate :: "nat \<Rightarrow> string \<Rightarrow> string + string"
  get_model_name :: string

text \<open>
  The library calls of \<open>insight_service.py\<close>: \<open>json.loads\<close>, which yields a value
  or raises \<open>JSONDecodeError\<close> with a message, and the pydantic constructor
  \<open>InsightOutput(**obj)\<close>, which yields an \<open>InsightOutput\<close> or raises
  (\<open>ValidationError\<close> for a field, \<open>TypeError\<close> when \<open>obj\<close> is not a mapping).
\<close>

record 'j pylib =
  json_loads :: "string \<Rightarrow> string + 'j"
  insight_output_init :: "'j \<Rightarrow> error + InsightOutput"

text \<open>\<open>InsightService._extract_features\<close>: no branch but the metrics one, so every
  other input type returns \<open>None\<close>.\<close>

definition extract_features :: "Settings \<Rightarrow> InsightRequest \<Rightarrow> error + FeatureSet option" where
  "extract_features s request =
     (if input_type request = Metrics then
        (let vals = (case d_values (data request) of None \<Rightarrow> [] | Some v \<Rightarrow> v)
         in if vals = [] \<or> length vals < 2
            then Inl (ValueError ''Need at least 2 values in data.values'')
            else (case extract_from_metrics s vals (request_context request) of
                    Inl e \<Rightarrow> Inl e
                  | Inr f \<Rightarrow> Inr (Some f)))
      else Inr None)"

definition get_metric_name :: "InsightRequest \<Rightarrow> string" where
  "get_metric_name request =
     (if input_type request = Metrics then
        (case d_metric_name (data request) of
           None \<Rightarrow> ''Unknown Metric''
         | Some m \<Rightarrow> (if m = [] then ''Unknown Metric'' else m))
      else if input_type request = Text then ''Text Analysis''
      else (case d_series_name (data request) of None \<Rightarrow> ''Time Series'' | Some n \<Rightarrow> n))"

text \<open>
  \<open>InsightService._call_llm_with_retry\<close>. One attempt is the call of \<open>generate\<close>
  followed by \<open>json.loads\<close> on its text; the exception of either is the attempt's
  failure. The loop returns its result together with the prompts it sent, in order.
\<close>

definition retry_note :: "string \<Rightarrow> string" where
  "retry_note last_error =
     nl @ nl @ ''PREVIOUS ATTEMPT FAILED: '' @ last_error @ nl @ ''Ensure output is valid JSON.''"

definition truthy :: "string option \<Rightarrow> bool" where
  "truthy v = (case v of None \<Rightarrow> False | Some t \<Rightarrow> t \<noteq> [])"

definition attempt_once :: "LLMClient \<Rightarrow> 'j pylib \<Rightarrow> nat \<Rightarrow> string \<Rightarrow> error + string" where
  "attempt_once c lib k prompt =
     (case generate c k prompt of
        Inl msg \<Rightarrow> Inl (ClientError msg)
      | Inr response \<Rightarrow>
          (case json_loads lib response of
             Inl msg \<Rightarrow> Inl (JSONDecodeError msg)
           | Inr _ \<Rightarrow> Inr response))"

definition refine_prompt :: "nat \<Rightarrow> string option \<Rightarrow> string \<Rightarrow> string" where
  "refine_prompt attempt last_error prompt =
     (if attempt > 0 \<and> truthy last_error then prompt @ retry_note (the last_error) else prompt)"

function call_llm_loop ::
  "LLMClient \<Rightarrow> 'j pylib \<Rightarrow> nat \<Rightarrow> nat \<Rightarrow> string \<Rightarrow> string option \<Rightarrow> (error + string) \<times> string list"
where
  "call_llm_loop c lib n attempt prompt last_error =
     (if n \<le> attempt then (Inl RetryLimitExceeded, [])
      else
        let prompt' = refine_prompt attempt last_error prompt
        in (case attempt_once c lib attempt prompt' of
              Inr response \<Rightarrow> (Inr response, [prompt'])
            | Inl e \<Rightarrow>
                if attempt = n - 1 then (Inl e, [prompt'])
                else (case call_llm_loop c lib n (attempt + 1) prompt' (Some (str_error e)) of
                        (r, sent) \<Rightarrow> (r, prompt' # sent))))"
  by pat_completeness auto
termination
  by (relation "measure (\<lambda>(c, lib, n, attempt, prompt, last_error). n - attempt)") auto

declare call_llm_loop.simps [simp del]

definition call_llm_with_retry ::
  "Settings \<Rightarrow> LLMClient \<Rightarrow> 'j pylib \<Rightarrow> string \<Rightarrow> (error + string) \<times> string list" where
  "call_llm_with_retry s c lib prompt =
     call_llm_loop c lib (nat (llm_max_retries s)) 0 prompt None"

text \<open>\<open>InsightService._generate_fallback_insight\<close>, on a \<open>FeatureSet\<close>.\<close>

definition generate_fallback_insight :: "pyfmt \<Rightarrow> FeatureSet \<Rightarrow> string \<Rightarrow> InsightOutput" where
  "generate_fallback_insight fmt f metric =
     (let direction = (if change_percent f > 0 then ''increase'' else ''decrease'');
          action_verb = (if change_percent f > 0 then ''investigate the cause of this growth''
                         else ''identify factors driving this decline'')
      in \<lparr>summary =
            metric @ '' experienced a '' @ fmt_1f fmt \<bar>change_percent f\<bar> @ ''% '' @ direction
            @ '' from '' @ str_float fmt (previous_value f) @ '' to ''
            @ str_float fmt (current_value f) @ ''. ''
            @ ''This change has been classified as '' @ severity_str (severity f)
            @ '' severity based on historical thresholds.'',
          insight_severity = severity f,
          confidence = 60 / 100,
          recommended_actions =
            [''Review '' @ metric @ '' data for the past 7 days to identify patterns'',
             ''Verify data quality and check for any anomalies in data collection'',
             ''Consult with relevant teams to '' @ action_verb],
          key_findings =
            [fmt_1f fmt \<bar>change_percent f\<bar> @ ''% change detected'',
             ''Current value: '' @ str_float fmt (current_value f),
             ''Analysis based on rule-based thresholds (LLM unavailable)'']\<rparr>)"

text \<open>
  The same call when the variable \<open>features\<close> may hold \<open>None\<close>: the first statement
  of the function reads \<open>features.change_percent\<close>, which raises on \<open>None\<close>.
\<close>

definition call_fallback :: "pyfmt \<Rightarrow> FeatureSet option \<Rightarrow> string \<Rightarrow> error + FeatureSet \<times> InsightOutput" where
  "call_fallback fmt fo metric =
     (case fo of
        None \<Rightarrow> Inl (AttributeError ''NoneType object has no attribute change_percent'')
      | Some f \<Rightarrow> Inr (f, generate_fallback_insight fmt f metric))"

text \<open>
  \<open>InsightService.generate_insight\<close>. The body of its \<open>try\<close> either completes or
  raises; the handler then asks \<open>locals()\<close> which of \<open>features\<close> and
  \<open>metric_name\<close> were already assigned, so a failure carries those bindings. A name
  assigned \<open>None\<close> is bound: \<open>'features' not in locals()\<close> is false for it.
\<close>

datatype 'a binding = Unbound | Bound 'a

record locals =
  l_features :: "FeatureSet option binding"
  l_metric_name :: "string binding"

text \<open>
  The variables that reach the assembly of the response. \<open>out_origin\<close> is not a
  variable of the source: it records which assignment to \<open>insight\<close> was executed, the
  parsed model output or the call of the rule-based generator.
\<close>

datatype Origin = FromModel | RuleBased

record outcome =
  out_features :: FeatureSet
  out_metric_name :: string
  out_insight :: InsightOutput
  out_fallback_used :: bool
  out_origin :: Origin

definition zeroed_features :: FeatureSet where
  "zeroed_features =
     \<lparr>previous_value = 0, current_value = 0, change_absolute = 0, change_percent = 0,
      severity = Low\<rparr>"

definition detect_anomaly :: "pyfmt \<Rightarrow> InsightRequest \<Rightarrow> AnomalyResult option" where
  "detect_anomaly fmt request =
     (if input_type request = Metrics then
        (let vals = (case d_values (data request) of None \<Rightarrow> [] | Some v \<Rightarrow> v)
         in if length vals \<ge> 3 then Some (z_score_detection fmt vals 3) else None)
      else None)"

definition parse_llm_output :: "'j pylib \<Rightarrow> string \<Rightarrow> error + InsightOutput" where
  "parse_llm_output lib llm_output =
     (case json_loads lib llm_output of
        Inl msg \<Rightarrow> Inl (JSONDecodeError msg)
      | Inr obj \<Rightarrow> insight_output_init lib obj)"

text \<open>The inner handler is \<open>except (json.JSONDecodeError, ValidationError)\<close>.\<close>

fun caught_by_inner :: "error \<Rightarrow> bool" where
  "caught_by_inner (JSONDecodeError m) = True"
| "caught_by_inner (ValidationError m) = True"
| "caught_by_inner e = False"

definition try_block ::
  "Settings \<Rightarrow> pyfmt \<Rightarrow> 'j pylib \<Rightarrow> LLMClient \<Rightarrow> InsightRequest \<Rightarrow> (locals \<times> error) + outcome" where
  "try_block s fmt lib c request =
     (case extract_features s request of
        Inl e \<Rightarrow> Inl (\<lparr>l_features = Unbound, l_metric_name = Unbound\<rparr>, e)
      | Inr None \<Rightarrow>
          Inl (\<lparr>l_features = Bound None, l_metric_name = Unbound\<rparr>,
               AttributeError ''NoneType object has no attribute dict'')
      | Inr (Some f) \<Rightarrow>
          let anomaly_result = detect_anomaly fmt request;
              metric = get_metric_name request;
              prompt = build_insight_prompt fmt metric f anomaly_result;
              bound = \<lparr>l_features = Bound (Some f), l_metric_name = Bound metric\<rparr>
          in (case fst (call_llm_with_retry s c lib prompt) of
                Inl e \<Rightarrow> Inl (bound, e)
              | Inr llm_output \<Rightarrow>
                  (case parse_llm_output lib llm_output of
                     Inr parsed \<Rightarrow>
                       Inr \<lparr>out_features = f, out_metric_name = metric, out_insight = parsed,
                            out_fallback_used = False, out_origin = FromModel\<rparr>
                   | Inl e \<Rightarrow>
                       if caught_by_inner e then
                         Inr \<lparr>out_features = f, out_metric_name = metric,
                              out_insight = generate_fallback_insight fmt f metric,
                              out_fallback_used = True, out_origin = RuleBased\<rparr>
                       else Inl (bound, e))))"

text \<open>
  The handler \<open>except Exception\<close>. Its own \<open>try\<close> builds a constant \<open>FeatureSet\<close>
  and calls \<open>_get_metric_name\<close>, neither of which raises, so its bare \<open>except\<close> is
  never entered. The call of the fallback generator that follows is not guarded.
\<close>

definition handle_failure :: "pyfmt \<Rightarrow> InsightRequest \<Rightarrow> locals \<Rightarrow> error + outcome" where
  "handle_failure fmt request loc =
     (let fo = (case l_features loc of Unbound \<Rightarrow> Some zeroed_features | Bound v \<Rightarrow> v);
          metric = (case l_metric_name loc of Unbound \<Rightarrow> get_metric_name request | Bound m \<Rightarrow> m)
      in (case call_fallback fmt fo metric of
            Inl e \<Rightarrow> Inl e
          | Inr (f, fallback) \<Rightarrow>
              Inr \<lparr>out_features = f, out_metric_name = metric, out_insight = fallback,
                   out_fallback_used = True, out_origin = RuleBased\<rparr>))"

definition run_steps ::
  "Settings \<Rightarrow> pyfmt \<Rightarrow> 'j pylib \<Rightarrow> LLMClient \<Rightarrow> InsightRequest \<Rightarrow> error + outcome" where
  "run_steps s fmt lib c request =
     (case try_block s fmt lib c request of
        Inr out \<Rightarrow> Inr out
      | Inl (loc, e) \<Rightarrow> handle_failure fmt request loc)"

text \<open>Step 5; \<open>start_time\<close> and \<open>end_time\<close> are the two readings of \<open>time.time()\<close>.\<close>

definition build_response ::
  "Settings \<Rightarrow> LLMClient \<Rightarrow> real \<Rightarrow> real \<Rightarrow> InsightRequest \<Rightarrow> outcome \<Rightarrow> InsightResponse" where
  "build_response s c start_time end_time request out =
     \<lparr>resp_user_id = user_id request,
      resp_tenant_id = tenant_id request,
      input_summary =
        \<lparr>metric_name = out_metric_name out,
         data_points_count = (case d_values (data request) of None \<Rightarrow> 2 | Some v \<Rightarrow> length v)\<rparr>,
      features = out_features out,
      insight = out_insight out,
      metadata =
        \<lparr>processing_time_ms = py_int ((end_time - start_time) * 1000),
         resp_llm_provider = llm_provider s,
         model_version = get_model_name c,
         fallback_used = out_fallback_used out\<rparr>\<rparr>"

definition generate_insight ::
  "Settings \<Rightarrow> pyfmt \<Rightarrow> 'j pylib \<Rightarrow> LLMClient \<Rightarrow> real \<Rightarrow> real \<Rightarrow> InsightRequest
     \<Rightarrow> error + InsightResponse" where
  "generate_insight s fmt lib c start_time end_time request =
     (case run_steps s fmt lib c request of
        Inl e \<Rightarrow> Inl e
      | Inr out \<Rightarrow> Inr (build_response s c start_time end_time request out))"

section \<open>Request validation\<close>

text \<open>
  \<open>app/models/schemas.py\<close>: constructing an \<open>InsightRequest\<close> from a payload. A
  payload is modelled by the keys the schemas look at, each absent or holding a value
  of the right type. \<open>validate_data_format\<close> builds \<open>MetricsData\<close>, \<open>TextData\<close> or
  \<open>TimeSeriesData\<close> from \<open>data\<close> according to the input type and replaces \<open>data\<close>
  by that model's dictionary, so the validated dictionary has the keys of that model
  only; a failure (a missing key, fewer than two values or points, an empty text) is
  raised as \<open>ValueError\<close>, which pydantic reports as the \<open>ValidationError\<close> of the
  request. The detail pydantic appends to the message is left out.
\<close>

record RawData =
  raw_metric_name :: "string option"
  raw_values :: "real list option"
  raw_content :: "string option"
  raw_series_name :: "string option"
  raw_data_points :: "(string \<times> real) list option"

record RawRequest =
  raw_user_id :: "string option"
  raw_tenant_id :: "string option"
  raw_input_type :: "string option"
  raw_data :: RawData
  raw_context :: "ContextConfig option"

definition input_type_of :: "string \<Rightarrow> InputType option" where
  "input_type_of t =
     (if t = ''metrics'' then Some Metrics
      else if t = ''text'' then Some Text
      else if t = ''timeseries'' then Some Timeseries
      else None)"

definition validate_data_format :: "InputType \<Rightarrow> RawData \<Rightarrow> error + RequestData" where
  "validate_data_format t v =
     (case t of
        Metrics \<Rightarrow>
          (case (raw_metric_name v, raw_values v) of
             (Some name, Some vals) \<Rightarrow>
               if 2 \<le> length vals
               then Inr \<lparr>d_metric_name = Some name, d_values = Some vals, d_series_name = None\<rparr>
               else Inl (ValueError ''Invalid data format for metrics'')
           | _ \<Rightarrow> Inl (ValueError ''Invalid data format for metrics''))
      | Text \<Rightarrow>
          (case raw_content v of
             Some content \<Rightarrow>
               if 1 \<le> length content
               then Inr \<lparr>d_metric_name = None, d_values = None, d_series_name = None\<rparr>
               else Inl (ValueError ''Invalid data format for text'')
           | None \<Rightarrow> Inl (ValueError ''Invalid data format for text''))
      | Timeseries \<Rightarrow>
          (case (raw_series_name v, raw_data_points v) of
             (Some name, Some points) \<Rightarrow>
               if 2 \<le> length points
               then Inr \<lparr>d_metric_name = None, d_values = None, d_series_name = Some name\<rparr>
               else Inl (ValueError ''Invalid data format for timeseries'')
           | _ \<Rightarrow> Inl (ValueError ''Invalid data format for timeseries'')))"

definition insight_request_init :: "RawRequest \<Rightarrow> error + InsightRequest" where
  "insight_request_init raw =
     (case (raw_user_id raw, raw_tenant_id raw,
            (case raw_input_type raw of None \<Rightarrow> None | Some t \<Rightarrow> input_type_of t)) of
        (Some u, Some t, Some it) \<Rightarrow>
          (case validate_data_format it (raw_data raw) of
             Inl e \<Rightarrow> Inl (ValidationError (str_error e))
           | Inr d \<Rightarrow>
               Inr \<lparr>user_id = u, tenant_id = t, input_type = it, data = d,
                    request_context = raw_context raw\<rparr>)
      | _ \<Rightarrow> Inl (ValidationError ''field required''))"

text \<open>
  What every caller of the service does (the route through FastAPI, the two tasks
  with \<open>InsightRequest(**request_data)\<close>): construct the request, then call
  \<open>generate_insight\<close> on it.
\<close>

definition parse_and_generate ::
  "Settings \<Rightarrow> pyfmt \<Rightarrow> 'j pylib \<Rightarrow> LLMClient \<Rightarrow> real \<Rightarrow> real \<Rightarrow> RawRequest
     \<Rightarrow> error + InsightResponse" where
  "parse_and_generate s fmt lib c start_time end_time raw =
     (case insight_request_init raw of
        Inl e \<Rightarrow> Inl e
      | Inr request \<Rightarrow> generate_insight s fmt lib c start_time end_time request)"

section \<open>Sample inputs\<close>

text \<open>
  Concrete collaborators and requests on which the results below are evaluated: a
  formatter that prints every number as \<open>#\<close>; a library whose only well-formed
  document is the text \<open>ok\<close>, which validates to a fixed insight; clients that always
  fail (with and without a message), that fail twice before answering, and that answer
  at once; a metrics payload with two values and a text payload, each with the
  request its validation yields, and a metrics payload with a single value.
\<close>

definition sample_fmt :: pyfmt where
  "sample_fmt =
     \<lparr>str_float = (\<lambda>x. ''#''), fmt_1f = (\<lambda>x. ''#''), fmt_2f = (\<lambda>x. ''#''),
      fmt_plus_2f = (\<lambda>x. ''#'')\<rparr>"

definition sample_insight :: InsightOutput where
  "sample_insight =
     \<lparr>summary = ''Sales rose.'', insight_severity = High, confidence = 9 / 10,
      recommended_actions = [''Review'', ''Monitor''],
      key_findings = [''Deviation'', ''Pattern'']\<rparr>"

definition sample_lib :: "string pylib" where
  "sample_lib =
     \<lparr>json_loads = (\<lambda>t. if t = ''ok'' then Inr t else Inl ''Expecting value''),
      insight_output_init = (\<lambda>obj. Inr sample_insight)\<rparr>"

definition failing_client :: LLMClient where
  "failing_client = \<lparr>generate = (\<lambda>k p. Inl ''timeout''), get_model_name = ''stub''\<rparr>"

definition silent_client :: LLMClient where
  "silent_client = \<lparr>generate = (\<lambda>k p. Inl []), get_model_name = ''stub''\<rparr>"

definition flaky_client :: LLMClient where
  "flaky_client =
     \<lparr>generate = (\<lambda>k p. if k = 0 then Inl ''timeout'' else if k = 1 then Inr ''oops'' else Inr ''ok''),
      get_model_name = ''stub''\<rparr>"

definition good_client :: LLMClient where
  "good_client = \<lparr>generate = (\<lambda>k p. Inr ''ok''), get_model_name = ''stub''\<rparr>"

definition metrics_request :: InsightRequest where
  "metrics_request =
     \<lparr>user_id = ''u'', tenant_id = ''t'', input_type = Metrics,
      data = \<lparr>d_metric_name = Some ''sales'', d_values = Some [100, 150], d_series_name = None\<rparr>,
      request_context = None\<rparr>"

definition text_request :: InsightRequest where
  "text_request =
     \<lparr>user_id = ''u'', tenant_id = ''t'', input_type = Text,
      data = \<lparr>d_metric_name = None, d_values = None, d_series_name = None\<rparr>,
      request_context = None\<rparr>"

definition metrics_payload :: RawRequest where
  "metrics_payload =
     \<lparr>raw_user_id = Some ''u'', raw_tenant_id = Some ''t'', raw_input_type = Some ''metrics'',
      raw_data = \<lparr>raw_metric_name = Some ''sales'', raw_values = Some [100, 150],
                  raw_content = None, raw_series_name = None, raw_data_points = None\<rparr>,
      raw_context = None\<rparr>"

definition short_payload :: RawRequest where
  "short_payload =
     \<lparr>raw_user_id = Some ''u'', raw_tenant_id = Some ''t'', raw_input_type = Some ''metrics'',
      raw_data = \<lparr>raw_metric_name = Some ''sales'', raw_values = Some [100],
                  raw_content = None, raw_series_name = None, raw_data_points = None\<rparr>,
      raw_context = None\<rparr>"

definition text_payload :: RawRequest where
  "text_payload =
     \<lparr>raw_user_id = Some ''u'', raw_tenant_id = Some ''t'', raw_input_type = Some ''text'',
      raw_data = \<lparr>raw_metric_name = None, raw_values = None,
                  raw_content = Some ''hello'', raw_series_name = None, raw_data_points = None\<rparr>,
      raw_context = None\<rparr>"

section \<open>Properties of feature extraction\<close>

lemma py_round_of_int: "py_round (of_int k) n = of_int k"
proof -
  have e: "(of_int k :: real) * 10 ^ n = of_int (k * 10 ^ n)" by simp
  have f: "\<lfloor>(of_int k :: real) * 10 ^ n\<rfloor> = k * 10 ^ n"
    unfolding e by (rule floor_of_int)
  have "py_round (of_int k) n = (of_int (k * 10 ^ n) :: real) / 10 ^ n"
    unfolding py_round_def Let_def f by (simp only: e) simp
  also have "\<dots> = of_int k" by simp
  finally show ?thesis .
qed

lemma py_round_0 [simp]: "py_round 0 n = 0"
  using py_round_of_int [of 0 n] by simp

lemma py_round_1000 [simp]: "py_round 1000 n = 1000"
  using py_round_of_int [of 1000 n] by simp

lemma py_round_m1000 [simp]: "py_round (- 1000) n = - 1000"
  using py_round_of_int [of "- 1000" n] by simp

lemma classify_cases:
  "classify t a =
     (if a \<ge> (case t ''critical'' of None \<Rightarrow> 50 | Some v \<Rightarrow> v) then Critical
      else if a \<ge> (case t ''high'' of None \<Rightarrow> 25 | Some v \<Rightarrow> v) then High
      else if a \<ge> (case t ''medium'' of None \<Rightarrow> 10 | Some v \<Rightarrow> v) then Medium
      else Low)"
  unfolding classify_def dict_get_def ..

lemma classify_settings:
  "classify [''critical'' \<mapsto> x, ''high'' \<mapsto> y, ''medium'' \<mapsto> z] a =
     (if a \<ge> x then Critical else if a \<ge> y then High else if a \<ge> z then Medium else Low)"
  unfolding classify_def dict_get_def by simp

text \<open>
  Claim C5. For every list of at least two values, \<open>extract_from_metrics\<close> returns a
  \<open>FeatureSet\<close> whose \<open>change_percent\<close> follows the three-case rule: 0 when the
  last two values are both 0; 1000 when the previous value is 0 and the current one is
  positive; -1000 when the previous value is 0 and the current one is negative;
  otherwise the relative change times 100, rounded to two decimals. With the default
  settings, \<open>[0, 100]\<close> gives 1000 and severity critical, and \<open>[0, -100]\<close> gives -1000.
\<close>

theorem change_percent_rule:
  "(2 \<le> length vals \<longrightarrow>
      (\<exists>f. extract_from_metrics s vals ctx = Inr f \<and>
           change_percent f =
             (let p = vals ! (length vals - 2); c = vals ! (length vals - 1)
              in if p = 0 \<and> c = 0 then 0
                 else if p = 0 \<and> c > 0 then 1000
                 else if p = 0 \<and> c < 0 then - 1000
                 else py_round (((c - p) / p) * 100) 2)))
   \<and> (\<exists>f. extract_from_metrics default_settings [0, 100] None = Inr f \<and>
            change_percent f = 1000 \<and> severity f = Critical)
   \<and> (\<exists>f. extract_from_metrics default_settings [0, - 100] None = Inr f \<and>
            change_percent f = - 1000)"
proof (intro conjI impI)
  assume "2 \<le> length vals"
  then show "\<exists>f. extract_from_metrics s vals ctx = Inr f \<and>
           change_percent f =
             (let p = vals ! (length vals - 2); c = vals ! (length vals - 1)
              in if p = 0 \<and> c = 0 then 0
                 else if p = 0 \<and> c > 0 then 1000
                 else if p = 0 \<and> c < 0 then - 1000
                 else py_round (((c - p) / p) * 100) 2)"
    by (auto simp: extract_from_metrics_def percent_change_def Let_def)
next
  show "\<exists>f. extract_from_metrics default_settings [0, 100] None = Inr f \<and>
            change_percent f = 1000 \<and> severity f = Critical"
    by (simp add: extract_from_metrics_def percent_change_def Let_def classify_def
        effective_thresholds_def dict_get_def default_settings_def)
next
  show "\<exists>f. extract_from_metrics default_settings [0, - 100] None = Inr f \<and>
            change_percent f = - 1000"
    by (simp add: extract_from_metrics_def percent_change_def Let_def)
qed

theorem change_percent_rule_witness:
  "2 \<le> length [100, 150 :: real] \<and>
   (\<exists>f. extract_from_metrics default_settings [100, 150] None = Inr f \<and> change_percent f = 50)"
proof -
  have r: "py_round 50 2 = 50" using py_round_of_int [of 50 2] by simp
  from change_percent_rule [of "[100, 150]" default_settings None]
  show ?thesis by (simp add: r)
qed

text \<open>An instance where the rounding changes the value: from 3 to 4 the change is
  a third of a hundred percent, reported as 33.33.\<close>

lemma change_percent_rounding_example:
  "\<exists>f. extract_from_metrics default_settings [3, 4] None = Inr f \<and>
       change_percent f = 3333 / 100 \<and> severity f = High"
proof -
  have pc: "percent_change 3 4 = 100 / 3"
    by (simp add: percent_change_def)
  have r: "py_round (100 / 3) 2 = 3333 / 100"
    unfolding py_round_def Let_def by simp
  have sev: "classify (effective_thresholds default_settings None) (100 / 3) = High"
    by (simp add: classify_settings effective_thresholds_def default_settings_def
        del: fun_upd_apply)
  show ?thesis
    by (simp add: extract_from_metrics_def Let_def pc r sev)
qed

text \<open>
  Claim C6, as stated, fails: the severity is classified from the percent change
  before it is rounded, while the \<open>FeatureSet\<close> reports the rounded one. From
  100000 to 149996 the change is 49.996 percent: it is reported as 50.0, the critical
  threshold, and classified high.
\<close>

theorem severity_rounded_counterexample:
  "extract_from_metrics default_settings [100000, 149996] None =
     Inr \<lparr>previous_value = 100000, current_value = 149996,
          change_absolute = 49996, change_percent = 50, severity = High\<rparr>"
proof -
  have pc: "percent_change 100000 149996 = 12499 / 250"
    by (simp add: percent_change_def)
  have a: "py_round (12499 / 250) 2 = 50"
    unfolding py_round_def Let_def by simp
  have b: "py_round 49996 2 = 49996"
    using py_round_of_int [of 49996 2] by simp
  have sev: "classify (effective_thresholds default_settings None) (12499 / 250) = High"
    by (simp add: classify_settings effective_thresholds_def default_settings_def
        del: fun_upd_apply)
  show ?thesis
    by (simp add: extract_from_metrics_def Let_def pc a b sev)
qed

text \<open>
  Claim C6, amended. For every list of at least two values the severity is classified
  from the absolute value of the unrounded percent change, in the order critical, high,
  medium, else low, with an inclusive comparison at each threshold. Without
  caller-supplied thresholds the three thresholds are those of the settings (50, 25,
  10 by default); with a caller-supplied dictionary each tier is its entry, or 50, 25,
  10 where the entry is missing.
\<close>

theorem severity_classification:
  "2 \<le> length vals \<longrightarrow>
     (\<exists>f. extract_from_metrics s vals ctx = Inr f \<and>
        (let a = \<bar>percent_change (vals ! (length vals - 2)) (vals ! (length vals - 1))\<bar>
         in (case (case ctx of None \<Rightarrow> None | Some c \<Rightarrow> thresholds c) of
               None \<Rightarrow>
                 severity f =
                   (if a \<ge> severity_threshold_critical s then Critical
                    else if a \<ge> severity_threshold_high s then High
                    else if a \<ge> severity_threshold_medium s then Medium
                    else Low)
             | Some t \<Rightarrow>
                 severity f =
                   (if a \<ge> (case t ''critical'' of None \<Rightarrow> 50 | Some v \<Rightarrow> v) then Critical
                    else if a \<ge> (case t ''high'' of None \<Rightarrow> 25 | Some v \<Rightarrow> v) then High
                    else if a \<ge> (case t ''medium'' of None \<Rightarrow> 10 | Some v \<Rightarrow> v) then Medium
                    else Low))))"
proof (cases "case ctx of None \<Rightarrow> None | Some c \<Rightarrow> thresholds c")
  case None
  then have "effective_thresholds s ctx =
      [''critical'' \<mapsto> severity_threshold_critical s,
       ''high'' \<mapsto> severity_threshold_high s,
       ''medium'' \<mapsto> severity_threshold_medium s]"
    by (simp add: effective_thresholds_def)
  with None show ?thesis
    by (simp add: extract_from_metrics_def Let_def classify_settings del: fun_upd_apply)
next
  case (Some t)
  then have "effective_thresholds s ctx = t"
    by (simp add: effective_thresholds_def)
  with Some show ?thesis
    by (simp add: extract_from_metrics_def Let_def classify_cases)
qed

theorem severity_classification_witness:
  "2 \<le> length [100, 150 :: real] \<and>
   (\<exists>f. extract_from_metrics default_settings [100, 150] None = Inr f \<and> severity f = Critical)"
proof -
  have pc: "percent_change 100 150 = 50"
    by (simp add: percent_change_def)
  from severity_classification [of "[100, 150]" default_settings None]
  show ?thesis by (simp add: pc default_settings_def)
qed

text \<open>
  Claim C7, as stated, fails: \<open>change_absolute\<close> is rounded to two decimals, the two
  values are not. From 1 to 1.00390625 the difference is 0.00390625 and the reported
  \<open>change_absolute\<close> is 0.
\<close>

theorem change_absolute_counterexample:
  "\<exists>f. extract_from_metrics default_settings [1, 257 / 256] None = Inr f \<and>
       change_absolute f \<noteq> current_value f - previous_value f"
proof -
  have c: "py_round (1 / 256) 2 = 0"
    unfolding py_round_def Let_def by simp
  show ?thesis
    by (simp add: extract_from_metrics_def Let_def c)
qed

text \<open>
  Claim C7, amended. For every list of at least two values the returned \<open>FeatureSet\<close>
  has \<open>previous_value = values[-2]\<close>, \<open>current_value = values[-1]\<close> and
  \<open>change_absolute\<close> equal to their difference rounded to two decimals.
\<close>

theorem change_absolute_rounded:
  "2 \<le> length vals \<longrightarrow>
     (\<exists>f. extract_from_metrics s vals ctx = Inr f \<and>
          previous_value f = vals ! (length vals - 2) \<and>
          current_value f = vals ! (length vals - 1) \<and>
          change_absolute f = py_round (current_value f - previous_value f) 2)"
  by (simp add: extract_from_metrics_def Let_def)

theorem change_absolute_rounded_witness:
  "2 \<le> length [1, 257 / 256 :: real] \<and>
   (\<exists>f. extract_from_metrics default_settings [1, 257 / 256] None = Inr f \<and>
        previous_value f = 1 \<and> current_value f = 257 / 256 \<and> change_absolute f = 0)"
proof -
  have c: "py_round (1 / 256) 2 = 0"
    unfolding py_round_def Let_def by simp
  from change_absolute_rounded [of "[1, 257 / 256]" default_settings None]
  obtain f where f: "extract_from_metrics default_settings [1, 257 / 256] None = Inr f"
    "previous_value f = 1" "current_value f = 257 / 256"
    "change_absolute f = py_round (current_value f - previous_value f) 2"
    by auto
  have "current_value f - previous_value f = 1 / 256"
    by (simp add: f(2,3))
  with f(4) c have "change_absolute f = 0" by simp
  with f(1,2,3) show ?thesis by simp
qed

section \<open>Properties of anomaly detection\<close>

lemma div_sqrt_less:
  assumes "0 < t" and "0 \<le> a" and "a ^ 2 < t ^ 2 * v"
  shows "a / sqrt v < t"
proof -
  have v: "0 < v"
  proof (rule ccontr)
    assume "\<not> 0 < v"
    then have "t ^ 2 * v \<le> 0" using assms(1) by (simp add: mult_nonneg_nonpos)
    with assms(3) have "a ^ 2 < 0" by linarith
    then show False by simp
  qed
  have "(a / t) ^ 2 < v"
    using assms(1,3) by (simp add: power_divide divide_less_eq mult.commute)
  then have "a / t < sqrt v"
    by (rule real_less_rsqrt)
  then have "a < t * sqrt v"
    using assms(1) by (simp add: divide_less_eq mult.commute)
  then show ?thesis
    using v by (simp add: divide_less_eq)
qed

lemma mean_a: "np_mean [100, 105, 98, 102, 110] = 103"
  by (simp add: np_mean_def)

lemma std_a: "np_std [100, 105, 98, 102, 110] = sqrt (88 / 5)"
  by (simp add: np_std_def Let_def mean_a) (simp add: np_mean_def)

lemma mean_b: "np_mean [100, 105, 98, 102, 500] = 181"
  by (simp add: np_mean_def)

lemma std_b: "np_std [100, 105, 98, 102, 500] = sqrt (127228 / 5)"
  by (simp add: np_std_def Let_def mean_b) (simp add: np_mean_def)

lemma z_a_anomaly: "is_anomaly (z_score_detection fmt [100, 105, 98, 102, 110] 3) = False"
proof -
  have lt: "7 / sqrt (88 / 5) < (3::real)"
    by (rule div_sqrt_less) simp_all
  have pos: "0 < 7 / sqrt (88 / 5 :: real)" by simp
  have ab: "\<bar>7 / sqrt (88 / 5 :: real)\<bar> = 7 / sqrt (88 / 5)"
    using pos by linarith
  show ?thesis
    unfolding z_score_detection_def Let_def mean_a std_a
    using lt by (simp add: ab)
qed

lemma z_b_value: "z_score (z_score_detection fmt [100, 105, 98, 102, 500] 3) = 319 / sqrt (127228 / 5)"
  unfolding z_score_detection_def Let_def mean_b std_b by simp

lemma z_b_anomaly: "is_anomaly (z_score_detection fmt [100, 105, 98, 102, 500] 3) = False"
proof -
  have lt: "319 / sqrt (127228 / 5) < (3::real)"
    by (rule div_sqrt_less) simp_all
  have pos: "0 < 319 / sqrt (127228 / 5 :: real)" by simp
  have ab: "\<bar>319 / sqrt (127228 / 5 :: real)\<bar> = 319 / sqrt (127228 / 5)"
    using pos by linarith
  show ?thesis
    unfolding z_score_detection_def Let_def mean_b std_b
    using lt by (simp add: ab)
qed

text \<open>
  Claim C3. On \<open>[100, 105, 98, 102, 110]\<close> with threshold 3 the detector reports no
  anomaly, as claimed. On \<open>[100, 105, 98, 102, 500]\<close> the mean is 181 and the
  population standard deviation is the square root of 25445.6, so the z-score of the
  last value is 319 divided by that root, which is below 2: the detector reports no
  anomaly there either, where the claim and the repository's test expect an anomaly
  with a z-score above 3.
\<close>

theorem z_score_examples:
  "is_anomaly (z_score_detection fmt [100, 105, 98, 102, 110] 3) = False
   \<and> is_anomaly (z_score_detection fmt [100, 105, 98, 102, 500] 3) = False
   \<and> z_score (z_score_detection fmt [100, 105, 98, 102, 500] 3) = 319 / sqrt (127228 / 5)
   \<and> z_score (z_score_detection fmt [100, 105, 98, 102, 500] 3) < 2"
proof -
  have "319 / sqrt (127228 / 5) < (2::real)"
    by (rule div_sqrt_less) simp_all
  then show ?thesis
    by (simp add: z_a_anomaly z_b_value z_b_anomaly)
qed

lemma sort_c: "sort [100, 105, 110, 108, 112, 115, 120, 500 :: real] = [100, 105, 108, 110, 112, 115, 120, 500]"
  by simp

lemma q1_c: "np_percentile [100, 105, 110, 108, 112, 115, 120, 500] 25 = 429 / 4"
  unfolding np_percentile_def Let_def sort_c by simp

lemma q3_c: "np_percentile [100, 105, 110, 108, 112, 115, 120, 500] 75 = 465 / 4"
  unfolding np_percentile_def Let_def sort_c by simp

lemma med_c: "np_median [100, 105, 110, 108, 112, 115, 120, 500] = 111"
  unfolding np_median_def Let_def sort_c by simp

lemma sort_d: "sort [100, 105, 110, 108, 112, 115, 120, 118 :: real] = [100, 105, 108, 110, 112, 115, 118, 120]"
  by simp

lemma q1_d: "np_percentile [100, 105, 110, 108, 112, 115, 120, 118] 25 = 429 / 4"
  unfolding np_percentile_def Let_def sort_d by simp

lemma q3_d: "np_percentile [100, 105, 110, 108, 112, 115, 120, 118] 75 = 463 / 4"
  unfolding np_percentile_def Let_def sort_d by simp

lemma med_d: "np_median [100, 105, 110, 108, 112, 115, 120, 118] = 111"
  unfolding np_median_def Let_def sort_d by simp

text \<open>
  Claim C9. \<open>iqr_detection\<close> returns a non-anomalous diagnostic result for fewer than
  four values. Otherwise, with Q1 and Q3 the 25th and 75th percentiles of the whole
  sequence and IQR their difference, it flags an anomaly exactly when the last value
  is below \<open>Q1 - m * IQR\<close> or above \<open>Q3 + m * IQR\<close>, reports as z-score the distance
  of the last value from the median divided by \<open>IQR / 1.35\<close> when the IQR is positive
  and 0 otherwise, and reports the last value as \<open>current_value\<close>. On
  \<open>[100, 105, 110, 108, 112, 115, 120, 500]\<close> with multiplier 1.5 it flags an anomaly
  and reports the current value 500.
\<close>

theorem iqr_rule:
  "(length vals < 4 \<longrightarrow>
      is_anomaly (iqr_detection fmt vals m) = False \<and>
      z_score (iqr_detection fmt vals m) = 0 \<and>
      details (iqr_detection fmt vals m) = [(''error'', DStr ''Need at least 4 values for IQR'')])
   \<and> (4 \<le> length vals \<longrightarrow>
        (let q1 = np_percentile vals 25;
             q3 = np_percentile vals 75;
             iqr = q3 - q1;
             current = vals ! (length vals - 1)
         in is_anomaly (iqr_detection fmt vals m) =
              (current < q1 - m * iqr \<or> current > q3 + m * iqr) \<and>
            z_score (iqr_detection fmt vals m) =
              (if iqr > 0 then \<bar>current - np_median vals\<bar> / (iqr / (135 / 100)) else 0) \<and>
            map_of (details (iqr_detection fmt vals m)) ''current_value'' = Some (DFloat current)))
   \<and> is_anomaly (iqr_detection fmt [100, 105, 110, 108, 112, 115, 120, 500] (15 / 10)) = True
   \<and> map_of (details (iqr_detection fmt [100, 105, 110, 108, 112, 115, 120, 500] (15 / 10)))
        ''current_value'' = Some (DFloat 500)"
proof (intro conjI impI)
  assume "length vals < 4"
  then show "is_anomaly (iqr_detection fmt vals m) = False"
    "z_score (iqr_detection fmt vals m) = 0"
    "details (iqr_detection fmt vals m) = [(''error'', DStr ''Need at least 4 values for IQR'')]"
    by (simp_all add: iqr_detection_def)
next
  assume "4 \<le> length vals"
  then have "\<not> length vals < 4" by simp
  then show "let q1 = np_percentile vals 25;
             q3 = np_percentile vals 75;
             iqr = q3 - q1;
             current = vals ! (length vals - 1)
         in is_anomaly (iqr_detection fmt vals m) =
              (current < q1 - m * iqr \<or> current > q3 + m * iqr) \<and>
            z_score (iqr_detection fmt vals m) =
              (if iqr > 0 then \<bar>current - np_median vals\<bar> / (iqr / (135 / 100)) else 0) \<and>
            map_of (details (iqr_detection fmt vals m)) ''current_value'' = Some (DFloat current)"
    by (simp add: iqr_detection_def Let_def)
next
  show "is_anomaly (iqr_detection fmt [100, 105, 110, 108, 112, 115, 120, 500] (15 / 10)) = True"
    unfolding iqr_detection_def Let_def q1_c q3_c med_c by simp
next
  show "map_of (details (iqr_detection fmt [100, 105, 110, 108, 112, 115, 120, 500] (15 / 10)))
        ''current_value'' = Some (DFloat 500)"
    unfolding iqr_detection_def Let_def q1_c q3_c med_c by simp
qed

theorem iqr_rule_witness:
  "length [1, 2, 3 :: real] < 4
   \<and> is_anomaly (iqr_detection sample_fmt [1, 2, 3] (15 / 10)) = False
   \<and> 4 \<le> length [100, 105, 110, 108, 112, 115, 120, 118 :: real]
   \<and> is_anomaly (iqr_detection sample_fmt [100, 105, 110, 108, 112, 115, 120, 118] (15 / 10)) = False
   \<and> z_score (iqr_detection sample_fmt [100, 105, 110, 108, 112, 115, 120, 118] (15 / 10)) = 189 / 170"
proof -
  from iqr_rule [of "[1, 2, 3]" sample_fmt "15 / 10"]
  have a: "is_anomaly (iqr_detection sample_fmt [1, 2, 3] (15 / 10)) = False"
    by simp
  from iqr_rule [of "[100, 105, 110, 108, 112, 115, 120, 118]" sample_fmt "15 / 10"]
  have b: "is_anomaly (iqr_detection sample_fmt [100, 105, 110, 108, 112, 115, 120, 118] (15 / 10)) = False
     \<and> z_score (iqr_detection sample_fmt [100, 105, 110, 108, 112, 115, 120, 118] (15 / 10)) = 189 / 170"
    unfolding Let_def q1_d q3_d med_d by simp
  from a b show ?thesis by simp
qed

section \<open>Properties of the orchestrator\<close>

lemma refine_prompt_Suc:
  "refine_prompt (Suc k) (Some m) q = (if m = [] then q else q @ retry_note m)"
  by (simp add: refine_prompt_def truthy_def)

lemma refine_prompt_first: "refine_prompt 0 le q = q"
  by (simp add: refine_prompt_def)

lemma call_llm_loop_done: "n \<le> a \<Longrightarrow> call_llm_loop c lib n a p le = (Inl RetryLimitExceeded, [])"
  by (subst call_llm_loop.simps) simp

lemma call_llm_loop_step:
  "a < n \<Longrightarrow> call_llm_loop c lib n a p le =
     (let q = refine_prompt a le p
      in (case attempt_once c lib a q of
            Inr t \<Rightarrow> (Inr t, [q])
          | Inl e \<Rightarrow>
              if Suc a = n then (Inl e, [q])
              else (fst (call_llm_loop c lib n (Suc a) q (Some (str_error e))),
                    q # snd (call_llm_loop c lib n (Suc a) q (Some (str_error e))))))"
  by (subst call_llm_loop.simps) (auto simp: Let_def split: sum.splits prod.splits)

lemma loop_spec:
  "a < n \<Longrightarrow> call_llm_loop c lib n a p le = (r, sent) \<Longrightarrow>
     sent \<noteq> [] \<and> sent ! 0 = refine_prompt a le p \<and> length sent \<le> n - a \<and>
     (\<forall>i. Suc i < length sent \<longrightarrow>
        (\<exists>e. attempt_once c lib (a + i) (sent ! i) = Inl e \<and>
             sent ! Suc i = refine_prompt (Suc (a + i)) (Some (str_error e)) (sent ! i))) \<and>
     (\<forall>t. r = Inr t \<longrightarrow> attempt_once c lib (a + length sent - 1) (last sent) = Inr t) \<and>
     (\<forall>e. r = Inl e \<longrightarrow> a + length sent = n \<and>
            attempt_once c lib (a + length sent - 1) (last sent) = Inl e)"
proof (induction "n - a" arbitrary: a p le r sent)
  case 0
  then show ?case by simp
next
  case (Suc d)
  let ?q = "refine_prompt a le p"
  show ?case
  proof (cases "attempt_once c lib a ?q")
    case (Inr t)
    with Suc.prems have "r = Inr t" "sent = [?q]"
      by (simp_all add: call_llm_loop_step Let_def)
    with Inr show ?thesis using Suc.prems(1) by simp
  next
    case (Inl e)
    show ?thesis
    proof (cases "Suc a = n")
      case True
      with Inl Suc.prems have "r = Inl e" "sent = [?q]"
        by (simp_all add: call_llm_loop_step Let_def)
      with Inl True show ?thesis by auto
    next
      case False
      with Suc.prems(1) have lt: "Suc a < n" by simp
      obtain r' sent' where rec: "call_llm_loop c lib n (Suc a) ?q (Some (str_error e)) = (r', sent')"
        by (cases "call_llm_loop c lib n (Suc a) ?q (Some (str_error e))")
      with Inl False Suc.prems have rs: "r = r'" "sent = ?q # sent'"
        by (simp_all add: call_llm_loop_step Let_def)
      have d: "d = n - Suc a" using Suc.hyps(2) by simp
      note ih = Suc.hyps(1) [OF d lt rec]
      from ih have ne: "sent' \<noteq> []" and hd: "sent' ! 0 = refine_prompt (Suc a) (Some (str_error e)) ?q"
        and len: "length sent' \<le> n - Suc a" by simp_all
      have steps: "\<forall>i. Suc i < length sent \<longrightarrow>
        (\<exists>e. attempt_once c lib (a + i) (sent ! i) = Inl e \<and>
             sent ! Suc i = refine_prompt (Suc (a + i)) (Some (str_error e)) (sent ! i))"
      proof (intro allI impI)
        fix i assume i: "Suc i < length sent"
        show "\<exists>e. attempt_once c lib (a + i) (sent ! i) = Inl e \<and>
             sent ! Suc i = refine_prompt (Suc (a + i)) (Some (str_error e)) (sent ! i)"
        proof (cases i)
          case 0
          with Inl hd rs show ?thesis by simp
        next
          case (Suc j)
          with i rs have "Suc j < length sent'" by simp
          with ih obtain e' where "attempt_once c lib (Suc a + j) (sent' ! j) = Inl e'"
            "sent' ! Suc j = refine_prompt (Suc (Suc a + j)) (Some (str_error e')) (sent' ! j)"
            by blast
          with Suc rs show ?thesis by simp
        qed
      qed
      have last: "last sent = last sent'" using rs ne by simp
      have idx: "a + length sent - 1 = Suc a + length sent' - 1" using rs ne by simp
      from ih have A: "\<forall>t. r' = Inr t \<longrightarrow> attempt_once c lib (Suc a + length sent' - 1) (last sent') = Inr t"
        and B: "\<forall>e. r' = Inl e \<longrightarrow> Suc a + length sent' = n \<and>
            attempt_once c lib (Suc a + length sent' - 1) (last sent') = Inl e"
        by blast+
      have c1: "sent \<noteq> []" "sent ! 0 = ?q" using rs by simp_all
      have c2: "length sent \<le> n - a" using rs len lt by simp
      have c3: "\<forall>t. r = Inr t \<longrightarrow> attempt_once c lib (a + length sent - 1) (last sent) = Inr t"
        using A unfolding idx last rs(1) .
      have len_eq: "a + length sent = Suc a + length sent'" using rs by simp
      have c4: "\<forall>e. r = Inl e \<longrightarrow> a + length sent = n \<and>
            attempt_once c lib (a + length sent - 1) (last sent) = Inl e"
        using B unfolding idx last rs(1) len_eq .
      from c1 c2 steps c3 c4 show ?thesis by blast
    qed
  qed
qed

lemma attempt_once_Inr:
  "attempt_once c lib k q = Inr t \<Longrightarrow> generate c k q = Inr t \<and> (\<exists>obj. json_loads lib t = Inr obj)"
  by (auto simp: attempt_once_def split: sum.splits)

lemma attempt_once_not_json:
  "generate c k q = Inr t \<Longrightarrow> json_loads lib t = Inl m \<Longrightarrow>
     attempt_once c lib k q = Inl (JSONDecodeError m)"
  by (simp add: attempt_once_def)

lemma attempt_once_client_fails:
  "isl (generate c k q) \<Longrightarrow> \<exists>m. attempt_once c lib k q = Inl (ClientError m)"
  by (cases "generate c k q") (simp_all add: attempt_once_def)

lemma loop_always_fails:
  assumes "\<forall>k q. isl (generate c k q)"
  shows "\<exists>e. fst (call_llm_loop c lib n a p le) = Inl e"
proof (cases "a < n")
  case False
  then show ?thesis by (simp add: call_llm_loop_done)
next
  case True
  obtain r sent where rs: "call_llm_loop c lib n a p le = (r, sent)"
    by (cases "call_llm_loop c lib n a p le")
  show ?thesis
  proof (cases r)
    case (Inl e)
    with rs show ?thesis by simp
  next
    case (Inr t)
    with loop_spec [OF True rs]
    have "attempt_once c lib (a + length sent - 1) (last sent) = Inr t" by blast
    moreover from assms obtain m where
      "attempt_once c lib (a + length sent - 1) (last sent) = Inl (ClientError m)"
      using attempt_once_client_fails by blast
    ultimately show ?thesis by simp
  qed
qed

lemma extract_features_metrics:
  assumes "input_type req = Metrics" and "d_values (data req) = Some vals" and "2 \<le> length vals"
  shows "\<exists>f. extract_from_metrics s vals (request_context req) = Inr f \<and>
             extract_features s req = Inr (Some f)"
proof -
  from assms(3) obtain f where f: "extract_from_metrics s vals (request_context req) = Inr f"
    by (auto simp: extract_from_metrics_def Let_def)
  from assms(3) have "vals \<noteq> []" by auto
  with assms f have "extract_features s req = Inr (Some f)"
    by (simp add: extract_features_def Let_def)
  with f show ?thesis by blast
qed

lemma run_steps_llm_failure:
  assumes "extract_features s req = Inr (Some f)"
    and "fst (call_llm_with_retry s c lib
           (build_insight_prompt fmt (get_metric_name req) f (detect_anomaly fmt req))) = Inl e"
  shows "run_steps s fmt lib c req =
           Inr \<lparr>out_features = f, out_metric_name = get_metric_name req,
                out_insight = generate_fallback_insight fmt f (get_metric_name req),
                out_fallback_used = True, out_origin = RuleBased\<rparr>"
  using assms
  by (simp add: run_steps_def try_block_def Let_def handle_failure_def call_fallback_def)

lemma fallback_shape:
  "confidence (generate_fallback_insight fmt f m) = 60 / 100 \<and>
   length (recommended_actions (generate_fallback_insight fmt f m)) = 3 \<and>
   length (key_findings (generate_fallback_insight fmt f m)) = 3 \<and>
   ''Analysis based on rule-based thresholds (LLM unavailable)''
     \<in> set (key_findings (generate_fallback_insight fmt f m))"
  by (simp add: generate_fallback_insight_def Let_def)

text \<open>
  Claim C1. For every metrics request whose \<open>data.values\<close> has at least two values
  and every client whose \<open>generate\<close> raises on every call, \<open>generate_insight\<close> does
  not raise: it returns a response that carries the extracted features, has
  \<open>fallback_used\<close> set, and whose insight is the output of the rule-based generator,
  with confidence 0.60, three recommended actions and three key findings, one of them
  the sentence naming the rule-based thresholds. This holds for every retry limit.
\<close>

theorem failing_model_falls_back:
  "input_type req = Metrics \<and> d_values (data req) = Some vals \<and> 2 \<le> length vals \<and>
   (\<forall>k q. isl (generate c k q)) \<longrightarrow>
     (\<exists>r f. generate_insight s fmt lib c t0 t1 req = Inr r \<and>
        extract_from_metrics s vals (request_context req) = Inr f \<and>
        features r = f \<and>
        fallback_used (metadata r) = True \<and>
        insight r = generate_fallback_insight fmt f (get_metric_name req) \<and>
        confidence (insight r) = 60 / 100 \<and>
        length (recommended_actions (insight r)) = 3 \<and>
        length (key_findings (insight r)) = 3 \<and>
        ''Analysis based on rule-based thresholds (LLM unavailable)''
          \<in> set (key_findings (insight r)))"
proof (intro impI, elim conjE)
  assume m: "input_type req = Metrics" and v: "d_values (data req) = Some vals"
    and l: "2 \<le> length vals" and fails: "\<forall>k q. isl (generate c k q)"
  from extract_features_metrics [OF m v l] obtain f where
    f: "extract_from_metrics s vals (request_context req) = Inr f"
    and ef: "extract_features s req = Inr (Some f)" by blast
  let ?p = "build_insight_prompt fmt (get_metric_name req) f (detect_anomaly fmt req)"
  from loop_always_fails [OF fails] obtain e where
    "fst (call_llm_with_retry s c lib ?p) = Inl e"
    unfolding call_llm_with_retry_def by blast
  from run_steps_llm_failure [OF ef this]
  have "generate_insight s fmt lib c t0 t1 req =
          Inr (build_response s c t0 t1 req
                 \<lparr>out_features = f, out_metric_name = get_metric_name req,
                  out_insight = generate_fallback_insight fmt f (get_metric_name req),
                  out_fallback_used = True, out_origin = RuleBased\<rparr>)"
    by (simp add: generate_insight_def)
  with f fallback_shape [of fmt f "get_metric_name req"] show
    "\<exists>r f. generate_insight s fmt lib c t0 t1 req = Inr r \<and>
        extract_from_metrics s vals (request_context req) = Inr f \<and>
        features r = f \<and>
        fallback_used (metadata r) = True \<and>
        insight r = generate_fallback_insight fmt f (get_metric_name req) \<and>
        confidence (insight r) = 60 / 100 \<and>
        length (recommended_actions (insight r)) = 3 \<and>
        length (key_findings (insight r)) = 3 \<and>
        ''Analysis based on rule-based thresholds (LLM unavailable)''
          \<in> set (key_findings (insight r))"
    by (simp add: build_response_def)
qed

theorem failing_model_falls_back_witness:
  "input_type metrics_request = Metrics \<and>
   d_values (data metrics_request) = Some [100, 150] \<and>
   2 \<le> length [100, 150 :: real] \<and>
   (\<forall>k q. isl (generate failing_client k q)) \<and>
   (\<exists>r. generate_insight default_settings sample_fmt sample_lib failing_client 0 1 metrics_request = Inr r \<and>
        fallback_used (metadata r) = True \<and>
        confidence (insight r) = 60 / 100 \<and>
        length (recommended_actions (insight r)) = 3 \<and>
        length (key_findings (insight r)) = 3)"
proof -
  have h: "input_type metrics_request = Metrics \<and>
     d_values (data metrics_request) = Some [100, 150] \<and>
     2 \<le> length [100, 150 :: real] \<and>
     (\<forall>k q. isl (generate failing_client k q))"
    by (simp add: metrics_request_def failing_client_def)
  from failing_model_falls_back
    [of metrics_request "[100, 150]" failing_client default_settings sample_fmt sample_lib 0 1] h
  have "\<exists>r. generate_insight default_settings sample_fmt sample_lib failing_client 0 1 metrics_request = Inr r \<and>
        fallback_used (metadata r) = True \<and>
        confidence (insight r) = 60 / 100 \<and>
        length (recommended_actions (insight r)) = 3 \<and>
        length (key_findings (insight r)) = 3"
    by blast
  with h show ?thesis by blast
qed

lemma try_block_origin:
  assumes "try_block s fmt lib c req = Inr out"
  shows "out_metric_name out = get_metric_name req \<and>
         extract_features s req = Inr (Some (out_features out)) \<and>
         (out_origin out = FromModel \<longrightarrow>
            out_fallback_used out = False \<and>
            (\<exists>t. fst (call_llm_with_retry s c lib
                        (build_insight_prompt fmt (out_metric_name out) (out_features out)
                           (detect_anomaly fmt req))) = Inr t \<and>
                 parse_llm_output lib t = Inr (out_insight out))) \<and>
         (out_origin out = RuleBased \<longrightarrow>
            out_fallback_used out = True \<and>
            out_insight out =
              generate_fallback_insight fmt (out_features out) (out_metric_name out))"
  using assms
  by (auto simp: try_block_def Let_def split: sum.splits option.splits if_splits)

lemma handle_failure_origin:
  assumes "handle_failure fmt req loc = Inr out"
  shows "out_origin out = RuleBased \<and> out_fallback_used out = True \<and>
         out_insight out = generate_fallback_insight fmt (out_features out) (out_metric_name out)"
  using assms
  by (auto simp: handle_failure_def call_fallback_def Let_def
      split: sum.splits option.splits binding.splits)

lemma run_steps_model_success:
  assumes "extract_features s req = Inr (Some f)"
    and "fst (call_llm_with_retry s c lib
           (build_insight_prompt fmt (get_metric_name req) f (detect_anomaly fmt req))) = Inr t"
    and "parse_llm_output lib t = Inr parsed"
  shows "run_steps s fmt lib c req =
           Inr \<lparr>out_features = f, out_metric_name = get_metric_name req,
                out_insight = parsed, out_fallback_used = False, out_origin = FromModel\<rparr>"
  using assms by (simp add: run_steps_def try_block_def Let_def)

lemma good_client_call:
  "call_llm_with_retry default_settings good_client sample_lib p = (Inr ''ok'', [p])"
  by (simp add: call_llm_with_retry_def default_settings_def call_llm_loop_step
      refine_prompt_first attempt_once_def good_client_def sample_lib_def)

lemma metrics_request_features:
  "\<exists>f. extract_features default_settings metrics_request = Inr (Some f)"
  using extract_features_metrics [of metrics_request "[100, 150]" default_settings]
  by (auto simp: metrics_request_def)

text \<open>
  Claim C2. Whenever \<open>generate_insight\<close> returns a response, its \<open>fallback_used\<close>
  flag is true exactly when the insight was assigned by the call of the rule-based
  generator, and then the insight is that generator's output on the response's features
  and metric name; it is false exactly when the insight was parsed and validated from
  the text the retry loop accepted from the model.
\<close>

theorem fallback_flag_iff:
  "generate_insight s fmt lib c t0 t1 req = Inr r \<longrightarrow>
     (\<exists>out. run_steps s fmt lib c req = Inr out \<and>
        insight r = out_insight out \<and>
        fallback_used (metadata r) = (out_origin out = RuleBased) \<and>
        (out_origin out = RuleBased \<longrightarrow>
           insight r =
             generate_fallback_insight fmt (features r) (metric_name (input_summary r))) \<and>
        (out_origin out = FromModel \<longrightarrow>
           (\<exists>t. fst (call_llm_with_retry s c lib
                       (build_insight_prompt fmt (metric_name (input_summary r)) (features r)
                          (detect_anomaly fmt req))) = Inr t \<and>
                parse_llm_output lib t = Inr (insight r))))"
  (is "_ \<longrightarrow> ?concl")
proof
  assume g: "generate_insight s fmt lib c t0 t1 req = Inr r"
  then obtain out where out: "run_steps s fmt lib c req = Inr out"
    and r: "r = build_response s c t0 t1 req out"
    by (auto simp: generate_insight_def split: sum.splits)
  have fields: "insight r = out_insight out" "features r = out_features out"
    "metric_name (input_summary r) = out_metric_name out"
    "fallback_used (metadata r) = out_fallback_used out"
    by (simp_all add: r build_response_def)
  have org: "out_fallback_used out = (out_origin out = RuleBased) \<and>
     (out_origin out = RuleBased \<longrightarrow>
        out_insight out = generate_fallback_insight fmt (out_features out) (out_metric_name out)) \<and>
     (out_origin out = FromModel \<longrightarrow>
        (\<exists>t. fst (call_llm_with_retry s c lib
                    (build_insight_prompt fmt (out_metric_name out) (out_features out)
                       (detect_anomaly fmt req))) = Inr t \<and>
             parse_llm_output lib t = Inr (out_insight out)))"
  proof (cases "try_block s fmt lib c req")
    case (Inr out')
    with out have "out' = out" by (simp add: run_steps_def)
    with Inr try_block_origin [of s fmt lib c req out] show ?thesis
      by (cases "out_origin out") auto
  next
    case (Inl le)
    with out have "handle_failure fmt req (fst le) = Inr out"
      by (cases le) (simp add: run_steps_def)
    from handle_failure_origin [OF this] show ?thesis by simp
  qed
  from out org show ?concl
    unfolding fields by blast
qed

theorem fallback_flag_iff_witness:
  "\<exists>r out. generate_insight default_settings sample_fmt sample_lib good_client 0 1 metrics_request = Inr r \<and>
      run_steps default_settings sample_fmt sample_lib good_client metrics_request = Inr out \<and>
      out_origin out = FromModel \<and>
      fallback_used (metadata r) = False \<and>
      insight r = sample_insight"
proof -
  from metrics_request_features obtain f where
    f: "extract_features default_settings metrics_request = Inr (Some f)" by blast
  have p: "parse_llm_output sample_lib ''ok'' = Inr sample_insight"
    by (simp add: parse_llm_output_def sample_lib_def)
  let ?out = "\<lparr>out_features = f, out_metric_name = get_metric_name metrics_request,
                out_insight = sample_insight, out_fallback_used = False, out_origin = FromModel\<rparr>"
  have rs: "run_steps default_settings sample_fmt sample_lib good_client metrics_request = Inr ?out"
    by (rule run_steps_model_success [OF f _ p]) (simp add: good_client_call)
  then have g: "generate_insight default_settings sample_fmt sample_lib good_client 0 1 metrics_request =
      Inr (build_response default_settings good_client 0 1 metrics_request ?out)"
    by (simp add: generate_insight_def)
  from fallback_flag_iff
    [of default_settings sample_fmt sample_lib good_client 0 1 metrics_request
        "build_response default_settings good_client 0 1 metrics_request ?out"] g rs
  have "fallback_used (metadata (build_response default_settings good_client 0 1 metrics_request ?out))
          = False"
    by auto
  with g rs show ?thesis by (simp add: build_response_def)
qed

lemma run_steps_no_features:
  assumes "extract_features s req = Inl e"
  shows "run_steps s fmt lib c req =
           Inr \<lparr>out_features = zeroed_features, out_metric_name = get_metric_name req,
                out_insight = generate_fallback_insight fmt zeroed_features (get_metric_name req),
                out_fallback_used = True, out_origin = RuleBased\<rparr>"
  using assms
  by (simp add: run_steps_def try_block_def handle_failure_def call_fallback_def Let_def)

lemma extract_features_metrics_not_None:
  "input_type req = Metrics \<Longrightarrow> extract_features s req \<noteq> Inr None"
  by (auto simp: extract_features_def Let_def split: sum.splits)

lemma try_block_bound:
  assumes "try_block s fmt lib c req = Inl (loc, e)"
    and "extract_features s req = Inr (Some f)"
  shows "l_features loc = Bound (Some f)"
  using assms
  by (auto simp: try_block_def Let_def split: sum.splits if_splits)

lemma run_steps_metrics_total:
  assumes "input_type req = Metrics"
  shows "\<exists>out. run_steps s fmt lib c req = Inr out"
proof (cases "extract_features s req")
  case (Inl e)
  from run_steps_no_features [OF this] show ?thesis by blast
next
  case (Inr fo)
  with extract_features_metrics_not_None [OF assms, of s] obtain f where
    f: "extract_features s req = Inr (Some f)" by (cases fo) auto
  show ?thesis
  proof (cases "try_block s fmt lib c req")
    case (Inr out)
    then show ?thesis by (simp add: run_steps_def)
  next
    case (Inl le)
    obtain loc e where le: "le = (loc, e)" by (cases le)
    with Inl try_block_bound [of s fmt lib c req loc e f] f
    have "l_features loc = Bound (Some f)" by simp
    with Inl le show ?thesis
      by (simp add: run_steps_def handle_failure_def call_fallback_def Let_def)
  qed
qed

lemma insight_request_init_rejects_short:
  assumes "raw_input_type raw = Some ''metrics''"
    and "length (case raw_values (raw_data raw) of None \<Rightarrow> [] | Some v \<Rightarrow> v) < 2"
  shows "\<exists>m. insight_request_init raw = Inl (ValidationError m)"
  using assms
  by (auto simp: insight_request_init_def input_type_of_def validate_data_format_def
      split: option.splits)

lemma validated_metrics_values:
  assumes "insight_request_init raw = Inr req" and "input_type req = Metrics"
  shows "\<exists>vals. d_values (data req) = Some vals \<and> 2 \<le> length vals"
  using assms
  by (auto simp: insight_request_init_def validate_data_format_def
      split: option.splits sum.splits InputType.splits if_splits)

lemma sample_payloads_valid:
  "insight_request_init metrics_payload = Inr metrics_request \<and>
   insight_request_init text_payload = Inr text_request"
  by (simp add: insight_request_init_def input_type_of_def validate_data_format_def
      metrics_payload_def text_payload_def metrics_request_def text_request_def)

text \<open>
  Claim C4. A payload of metrics type with fewer than two values never reaches the
  orchestrator: the construction of the request rejects it with a validation error, and
  no response, so no fallback insight, is produced for it. For a request that
  validation accepts, feature extraction of a metrics request cannot fail and no error
  of any kind propagates to the caller. For an accepted text or timeseries request,
  however, \<open>AttributeError\<close> propagates to the caller: an error that is not a
  rejection of an invalid input, where the claim says that no other kind of error ever
  propagates.
\<close>

theorem valid_request_error_kinds:
  "(raw_input_type raw = Some ''metrics'' \<and>
    length (case raw_values (raw_data raw) of None \<Rightarrow> [] | Some v \<Rightarrow> v) < 2 \<longrightarrow>
      (\<exists>m. parse_and_generate s fmt lib c t0 t1 raw = Inl (ValidationError m)))
   \<and> (insight_request_init raw = Inr req \<and> input_type req = Metrics \<longrightarrow>
         (\<exists>f. extract_features s req = Inr (Some f)) \<and>
         (\<exists>r. parse_and_generate s fmt lib c t0 t1 raw = Inr r))
   \<and> (insight_request_init raw = Inr req \<and> input_type req \<noteq> Metrics \<longrightarrow>
         parse_and_generate s fmt lib c t0 t1 raw =
           Inl (AttributeError ''NoneType object has no attribute change_percent''))
   \<and> insight_request_init text_payload = Inr text_request
   \<and> parse_and_generate default_settings sample_fmt sample_lib good_client 0 1 text_payload =
         Inl (AttributeError ''NoneType object has no attribute change_percent'')"
  (is "?reject \<and> ?metrics \<and> ?other \<and> ?valid \<and> ?raises")
proof (intro conjI)
  show ?reject
  proof
    assume "raw_input_type raw = Some ''metrics'' \<and>
      length (case raw_values (raw_data raw) of None \<Rightarrow> [] | Some v \<Rightarrow> v) < 2"
    then obtain m where "insight_request_init raw = Inl (ValidationError m)"
      using insight_request_init_rejects_short by blast
    then show "\<exists>m. parse_and_generate s fmt lib c t0 t1 raw = Inl (ValidationError m)"
      by (simp add: parse_and_generate_def)
  qed
  show ?metrics
  proof (intro impI, elim conjE)
    assume v: "insight_request_init raw = Inr req" and m: "input_type req = Metrics"
    from validated_metrics_values [OF v m] obtain vals where
      "d_values (data req) = Some vals" "2 \<le> length vals" by blast
    from extract_features_metrics [OF m this, of s]
    have a: "\<exists>f. extract_features s req = Inr (Some f)" by blast
    from run_steps_metrics_total [OF m, where s = s and fmt = fmt and lib = lib and c = c]
    obtain out where "run_steps s fmt lib c req = Inr out" by blast
    with v have "\<exists>r. parse_and_generate s fmt lib c t0 t1 raw = Inr r"
      by (simp add: parse_and_generate_def generate_insight_def)
    with a show "(\<exists>f. extract_features s req = Inr (Some f)) \<and>
         (\<exists>r. parse_and_generate s fmt lib c t0 t1 raw = Inr r)" by blast
  qed
  show ?other
    by (simp add: parse_and_generate_def extract_features_def generate_insight_def
        run_steps_def try_block_def handle_failure_def call_fallback_def Let_def)
  show ?valid
    by (simp add: sample_payloads_valid)
  show ?raises
    by (simp add: parse_and_generate_def sample_payloads_valid text_request_def
        extract_features_def generate_insight_def
        run_steps_def try_block_def handle_failure_def call_fallback_def Let_def)
qed

theorem valid_request_error_kinds_witness:
  "raw_input_type short_payload = Some ''metrics''
   \<and> length (case raw_values (raw_data short_payload) of None \<Rightarrow> [] | Some v \<Rightarrow> v) < 2
   \<and> (\<exists>m. parse_and_generate default_settings sample_fmt sample_lib good_client 0 1 short_payload =
            Inl (ValidationError m))
   \<and> insight_request_init metrics_payload = Inr metrics_request
   \<and> input_type metrics_request = Metrics
   \<and> (\<exists>r. parse_and_generate default_settings sample_fmt sample_lib good_client 0 1 metrics_payload =
            Inr r)
   \<and> insight_request_init text_payload = Inr text_request
   \<and> input_type text_request \<noteq> Metrics
   \<and> parse_and_generate default_settings sample_fmt sample_lib failing_client 0 1 text_payload =
         Inl (AttributeError ''NoneType object has no attribute change_percent'')"
proof -
  have a: "raw_input_type short_payload = Some ''metrics''"
    "length (case raw_values (raw_data short_payload) of None \<Rightarrow> [] | Some v \<Rightarrow> v) < 2"
    by (simp_all add: short_payload_def)
  have b: "insight_request_init metrics_payload = Inr metrics_request"
    "input_type metrics_request = Metrics"
    by (simp_all add: sample_payloads_valid metrics_request_def)
  have c: "insight_request_init text_payload = Inr text_request"
    "input_type text_request \<noteq> Metrics"
    by (simp_all add: sample_payloads_valid text_request_def)
  from valid_request_error_kinds
    [of short_payload default_settings sample_fmt sample_lib good_client 0 1] a
  have 1: "\<exists>m. parse_and_generate default_settings sample_fmt sample_lib good_client 0 1 short_payload =
            Inl (ValidationError m)" by blast
  from valid_request_error_kinds
    [of metrics_payload default_settings sample_fmt sample_lib good_client 0 1 metrics_request] b
  have 2: "\<exists>r. parse_and_generate default_settings sample_fmt sample_lib good_client 0 1 metrics_payload =
            Inr r" by blast
  from valid_request_error_kinds
    [of text_payload default_settings sample_fmt sample_lib failing_client 0 1 text_request] c
  have 3: "parse_and_generate default_settings sample_fmt sample_lib failing_client 0 1 text_payload =
         Inl (AttributeError ''NoneType object has no attribute change_percent'')" by blast
  from a b c 1 2 3 show ?thesis by blast
qed

text \<open>
  Claim C10. For a request whose input type is text or timeseries, the feature
  extraction step returns \<open>None\<close>, as claimed. The orchestrator does not then return a
  response with zeroed features: \<open>features\<close> is bound (to \<open>None\<close>), so the handler
  keeps it, and the unguarded call of the rule-based generator raises
  \<open>AttributeError\<close>, which propagates to the caller.
\<close>

theorem non_metrics_request_raises:
  "input_type req \<noteq> Metrics \<longrightarrow>
     extract_features s req = Inr None \<and>
     generate_insight s fmt lib c t0 t1 req =
       Inl (AttributeError ''NoneType object has no attribute change_percent'')"
  by (simp add: extract_features_def generate_insight_def run_steps_def try_block_def
      handle_failure_def call_fallback_def Let_def)

theorem non_metrics_request_raises_witness:
  "input_type text_request \<noteq> Metrics \<and>
   extract_features default_settings text_request = Inr None \<and>
   generate_insight default_settings sample_fmt sample_lib good_client 0 1 text_request =
     Inl (AttributeError ''NoneType object has no attribute change_percent'')"
  using non_metrics_request_raises
    [of text_request default_settings sample_fmt sample_lib good_client 0 1]
  by (simp add: text_request_def)

lemma flaky_client_call:
  "call_llm_with_retry default_settings flaky_client sample_lib ''p'' =
     (Inr ''ok'',
      [''p'',
       ''p'' @ retry_note ''timeout'',
       ''p'' @ retry_note ''timeout'' @ retry_note ''Expecting value''])"
  by (simp add: call_llm_with_retry_def default_settings_def call_llm_loop_step
      refine_prompt_first refine_prompt_Suc attempt_once_def flaky_client_def sample_lib_def)

text \<open>
  Claim C8, as stated, fails: the note is appended only when the message of the
  previous failure is a non-empty string (\<open>if attempt > 0 and last_error\<close>). A client
  whose exception has an empty message receives the unchanged prompt on all three
  attempts.
\<close>

theorem silent_failure_counterexample:
  "call_llm_with_retry default_settings silent_client sample_lib ''p'' =
     (Inl (ClientError []), [''p'', ''p'', ''p''])"
  by (simp add: call_llm_with_retry_def default_settings_def call_llm_loop_step
      refine_prompt_first refine_prompt_Suc attempt_once_def silent_client_def Let_def)

text \<open>
  Claim C8, amended. The loop sends at most \<open>llm_max_retries\<close> prompts, one
  \<open>generate\<close> call each, the first being the prompt it was given. Every prompt but the
  last belongs to a failed attempt, and the next prompt is the same prompt with the note
  naming that failure appended when the failure's message is non-empty, and the same
  prompt unchanged when it is empty; notes accumulate. A text that \<open>json.loads\<close>
  rejects is a failure of its attempt, so an accepted text always parses. When the loop
  raises, every allowed attempt was made and failed (or none was allowed), and the
  orchestrator, which had its features, answers with the rule-based insight computed
  from them.
\<close>

theorem retry_protocol:
  "(call_llm_with_retry s c lib prompt = (r, sent) \<longrightarrow>
      length sent \<le> nat (llm_max_retries s)
      \<and> (sent \<noteq> [] \<longrightarrow> sent ! 0 = prompt)
      \<and> (\<forall>i. Suc i < length sent \<longrightarrow>
            (\<exists>e. attempt_once c lib i (sent ! i) = Inl e \<and>
                 sent ! Suc i =
                   (if str_error e = [] then sent ! i
                    else sent ! i @ retry_note (str_error e))))
      \<and> (\<forall>t. r = Inr t \<longrightarrow>
            sent \<noteq> [] \<and> generate c (length sent - 1) (last sent) = Inr t \<and>
            (\<exists>obj. json_loads lib t = Inr obj))
      \<and> (\<forall>e. r = Inl e \<longrightarrow>
            length sent = nat (llm_max_retries s) \<and>
            (if sent = [] then e = RetryLimitExceeded
             else attempt_once c lib (length sent - 1) (last sent) = Inl e)))
   \<and> (\<forall>k q t m. generate c k q = Inr t \<and> json_loads lib t = Inl m \<longrightarrow>
          attempt_once c lib k q = Inl (JSONDecodeError m))
   \<and> (\<forall>req f e.
          extract_features s req = Inr (Some f) \<and>
          fst (call_llm_with_retry s c lib
                 (build_insight_prompt fmt (get_metric_name req) f (detect_anomaly fmt req))) = Inl e
          \<longrightarrow> run_steps s fmt lib c req =
                Inr \<lparr>out_features = f, out_metric_name = get_metric_name req,
                     out_insight = generate_fallback_insight fmt f (get_metric_name req),
                     out_fallback_used = True, out_origin = RuleBased\<rparr>)"
  (is "(_ \<longrightarrow> ?loop) \<and> ?json \<and> ?route")
proof (intro conjI)
  show ?json by (simp add: attempt_once_not_json)
  show ?route using run_steps_llm_failure by blast
  show "call_llm_with_retry s c lib prompt = (r, sent) \<longrightarrow> ?loop"
  proof
    assume call: "call_llm_with_retry s c lib prompt = (r, sent)"
    let ?n = "nat (llm_max_retries s)"
    from call have loop: "call_llm_loop c lib ?n 0 prompt None = (r, sent)"
      by (simp add: call_llm_with_retry_def)
    show ?loop
    proof (cases "0 < ?n")
      case False
      with loop have "r = Inl RetryLimitExceeded" "sent = []"
        by (simp_all add: call_llm_loop_done)
      with False show ?thesis by simp
    next
      case True
      note sp = loop_spec [OF True loop]
      from sp have ne: "sent \<noteq> []" and first: "sent ! 0 = prompt"
        and len: "length sent \<le> ?n"
        by (simp_all add: refine_prompt_first)
      have steps: "\<forall>i. Suc i < length sent \<longrightarrow>
            (\<exists>e. attempt_once c lib i (sent ! i) = Inl e \<and>
                 sent ! Suc i =
                   (if str_error e = [] then sent ! i
                    else sent ! i @ retry_note (str_error e)))"
      proof (intro allI impI)
        fix i assume "Suc i < length sent"
        with sp obtain e where "attempt_once c lib (0 + i) (sent ! i) = Inl e"
          "sent ! Suc i = refine_prompt (Suc (0 + i)) (Some (str_error e)) (sent ! i)"
          by blast
        then show "\<exists>e. attempt_once c lib i (sent ! i) = Inl e \<and>
                 sent ! Suc i =
                   (if str_error e = [] then sent ! i
                    else sent ! i @ retry_note (str_error e))"
          by (auto simp: refine_prompt_Suc)
      qed
      have ok: "\<forall>t. r = Inr t \<longrightarrow>
            sent \<noteq> [] \<and> generate c (length sent - 1) (last sent) = Inr t \<and>
            (\<exists>obj. json_loads lib t = Inr obj)"
      proof (intro allI impI)
        fix t assume "r = Inr t"
        with sp have "attempt_once c lib (0 + length sent - 1) (last sent) = Inr t" by blast
        then have "attempt_once c lib (length sent - 1) (last sent) = Inr t" by simp
        from attempt_once_Inr [OF this] ne
        show "sent \<noteq> [] \<and> generate c (length sent - 1) (last sent) = Inr t \<and>
            (\<exists>obj. json_loads lib t = Inr obj)" by simp
      qed
      have bad: "\<forall>e. r = Inl e \<longrightarrow>
            length sent = ?n \<and>
            (if sent = [] then e = RetryLimitExceeded
             else attempt_once c lib (length sent - 1) (last sent) = Inl e)"
      proof (intro allI impI)
        fix e assume "r = Inl e"
        with sp have "0 + length sent = ?n"
          "attempt_once c lib (0 + length sent - 1) (last sent) = Inl e" by blast+
        with ne show "length sent = ?n \<and>
            (if sent = [] then e = RetryLimitExceeded
             else attempt_once c lib (length sent - 1) (last sent) = Inl e)" by simp
      qed
      from len first steps ok bad show ?thesis by blast
    qed
  qed
qed

theorem retry_protocol_witness:
  "call_llm_with_retry default_settings flaky_client sample_lib ''p'' =
     (Inr ''ok'',
      [''p'',
       ''p'' @ retry_note ''timeout'',
       ''p'' @ retry_note ''timeout'' @ retry_note ''Expecting value''])
   \<and> length [''p'', ''p'' @ retry_note ''timeout'',
              ''p'' @ retry_note ''timeout'' @ retry_note ''Expecting value'']
         \<le> nat (llm_max_retries default_settings)
   \<and> generate flaky_client 2
         (''p'' @ retry_note ''timeout'' @ retry_note ''Expecting value'') = Inr ''ok''
   \<and> (\<exists>obj. json_loads sample_lib ''ok'' = Inr obj)"
proof -
  note call = flaky_client_call
  from retry_protocol
    [of default_settings flaky_client sample_lib "''p''" "Inr ''ok''"
        "[''p'', ''p'' @ retry_note ''timeout'',
          ''p'' @ retry_note ''timeout'' @ retry_note ''Expecting value'']" sample_fmt] call
  have "length [''p'', ''p'' @ retry_note ''timeout'',
              ''p'' @ retry_note ''timeout'' @ retry_note ''Expecting value'']
         \<le> nat (llm_max_retries default_settings)"
    and "\<forall>t. (Inr ''ok'' :: error + string) = Inr t \<longrightarrow>
           generate flaky_client
             (length [''p'', ''p'' @ retry_note ''timeout'',
                ''p'' @ retry_note ''timeout'' @ retry_note ''Expecting value''] - 1)
             (last [''p'', ''p'' @ retry_note ''timeout'',
                ''p'' @ retry_note ''timeout'' @ retry_note ''Expecting value'']) = Inr t \<and>
           (\<exists>obj. json_loads sample_lib t = Inr obj)"
    by blast+
  with call show ?thesis by (simp add: numeral_2_eq_2)
qed

end
